theory Spec2Isabelle
  imports Complex_Main "HOL-Library.Sublist"
begin

section \<open>Python values, exceptions and strings\<close>

text \<open>
  Tool arguments and parsed JSON documents are JSON values. A Python \<open>dict\<close> is an
  association list in insertion order with distinct keys; lookups go through \<open>map_of\<close>.
  Python floats are modelled as reals, and every floating-point operation rounds its exact
  result with \<open>f64\<close> below.
\<close>

datatype json =
    JNull
  | JBool bool
  | JInt int
  | JFloat real
  | JStr string
  | JArr "json list"
  | JObj "(string \<times> json) list"

text \<open>The exception classes the modelled code raises; all are subclasses of \<open>Exception\<close>.\<close>

datatype exn =
    ValueError string
  | KeyError string
  | IndexError string
  | TypeError string
  | AttributeError string
  | ZeroDivisionError string
  | OSError string
  | JSONDecodeError string
  | OverflowError string
  | Exception string

definition hex_digit :: "nat \<Rightarrow> char" where
  "hex_digit n = (''0123456789abcdef'') ! (n mod 16)"

text \<open>\<open>repr\<close> of a \<open>str\<close>, for ASCII text: the quote is chosen as CPython does.\<close>

definition repr_char :: "char \<Rightarrow> char \<Rightarrow> string" where
  "repr_char q c =
     (if c = q \<or> c = CHR 0x5C then [CHR 0x5C, c]
      else if c = CHR 0x09 then [CHR 0x5C, CHR ''t'']
      else if c = CHR 0x0A then [CHR 0x5C, CHR ''n'']
      else if c = CHR 0x0D then [CHR 0x5C, CHR ''r'']
      else if of_char c < (32::nat) \<or> of_char c = (127::nat)
        then [CHR 0x5C, CHR ''x'', hex_digit (of_char c div 16), hex_digit (of_char c)]
      else [c])"

definition py_repr :: "string \<Rightarrow> string" where
  "py_repr s =
     (let q = (if CHR 0x27 \<in> set s \<and> CHR 0x22 \<notin> set s then CHR 0x22 else CHR 0x27)
      in [q] @ concat (map (repr_char q) s) @ [q])"

text \<open>\<open>str(e)\<close>: the message, except that a \<open>KeyError\<close> prints the \<open>repr\<close> of its argument.\<close>

fun str_exn :: "exn \<Rightarrow> string" where
  "str_exn (ValueError m) = m"
| "str_exn (KeyError m) = py_repr m"
| "str_exn (IndexError m) = m"
| "str_exn (TypeError m) = m"
| "str_exn (AttributeError m) = m"
| "str_exn (ZeroDivisionError m) = m"
| "str_exn (OSError m) = m"
| "str_exn (JSONDecodeError m) = m"
| "str_exn (OverflowError m) = m"
| "str_exn (Exception m) = m"

text \<open>\<open>type(obj).__name__\<close>\<close>

fun type_name :: "json \<Rightarrow> string" where
  "type_name JNull = ''NoneType''"
| "type_name (JBool b) = ''bool''"
| "type_name (JInt i) = ''int''"
| "type_name (JFloat r) = ''float''"
| "type_name (JStr s) = ''str''"
| "type_name (JArr xs) = ''list''"
| "type_name (JObj kvs) = ''dict''"

text \<open>\<open>args.get(key, default)\<close>\<close>

definition dict_get :: "('k \<rightharpoonup> 'v) \<Rightarrow> 'k \<Rightarrow> 'v \<Rightarrow> 'v" where
  "dict_get m k d = (case m k of None \<Rightarrow> d | Some v \<Rightarrow> v)"

text \<open>\<open>str.lower()\<close> on ASCII text.\<close>

definition lower_char :: "char \<Rightarrow> char" where
  "lower_char c =
     (case map_of (zip ''ABCDEFGHIJKLMNOPQRSTUVWXYZ'' ''abcdefghijklmnopqrstuvwxyz'') c of
        Some l \<Rightarrow> l
      | None \<Rightarrow> c)"

definition lower :: "string \<Rightarrow> string" where
  "lower s = map lower_char s"

text \<open>
  The \<open>try\<close> blocks of the tool functions end in
  \<^verbatim>\<open>except ValueError as e: raise ValueError(f"<p1>{str(e)}")\<close> and
  \<^verbatim>\<open>except Exception as e: raise Exception(f"<p2>{str(e)}")\<close>
  (\<open>JSONDecodeError\<close> is a subclass of \<open>ValueError\<close>), or in the second clause alone.
\<close>

fun reraise :: "string \<Rightarrow> string \<Rightarrow> exn + 'a \<Rightarrow> exn + 'a" where
  "reraise p1 p2 (Inr x) = Inr x"
| "reraise p1 p2 (Inl (ValueError m)) = Inl (ValueError (p1 @ m))"
| "reraise p1 p2 (Inl (JSONDecodeError m)) = Inl (ValueError (p1 @ m))"
| "reraise p1 p2 (Inl e) = Inl (Exception (p2 @ str_exn e))"

fun reraise_all :: "string \<Rightarrow> exn + 'a \<Rightarrow> exn + 'a" where
  "reraise_all p (Inr x) = Inr x"
| "reraise_all p (Inl e) = Inl (Exception (p @ str_exn e))"

text \<open>\<open>str(n)\<close> of an integer.\<close>

fun show_nat :: "nat \<Rightarrow> string" where
  "show_nat n =
     (if n < 10 then [''0123456789'' ! n]
      else show_nat (n div 10) @ [''0123456789'' ! (n mod 10)])"

declare show_nat.simps [simp del]

definition show_int :: "int \<Rightarrow> string" where
  "show_int i = (if i < 0 then CHR ''-'' # show_nat (nat (- i)) else show_nat (nat i))"

text \<open>
  \<open>int(s)\<close> for a \<open>str\<close>, as CPython reads it (\<open>PyLong_FromString\<close>, base 10). The
  whitespace skipped on both sides is the C whitespace (tab to carriage return, and the
  space) and, in text that is not ASCII, the Unicode spaces, which among the characters
  modelled are NEL and the no-break space; the separators \<open>0x1C\<close> to \<open>0x1F\<close> are not skipped.
  A sign may lead; the digits may be grouped by single underscores. The digits are counted
  as they are scanned, and more than 4300 of them are refused before anything that follows
  them is looked at. Every failure is a \<open>ValueError\<close>.
\<close>

definition int_space :: "char \<Rightarrow> bool" where
  "int_space c =
     ((9::nat) \<le> of_char c \<and> of_char c \<le> (13::nat) \<or> of_char c = (32::nat)
      \<or> of_char c = (133::nat) \<or> of_char c = (160::nat))"

definition is_digit :: "char \<Rightarrow> bool" where
  "is_digit c = (c \<in> set ''0123456789'')"

text \<open>
  The run of digits and underscores: \<open>us\<close> says that an underscore may not stand here (at
  the start, and after an underscore). The result is the value, the number of digits and the
  text left over; \<open>None\<close> is a misplaced underscore or a run without digits.
\<close>

fun scan_digits :: "bool \<Rightarrow> nat \<Rightarrow> nat \<Rightarrow> string \<Rightarrow> (nat \<times> nat \<times> string) option" where
  "scan_digits us acc n [] = (if us then None else Some (acc, n, []))"
| "scan_digits us acc n (c # cs) =
     (if is_digit c then scan_digits False (acc * 10 + (of_char c - 48)) (Suc n) cs
      else if c = CHR ''_'' then (if us then None else scan_digits True acc n cs)
      else if us then None
      else Some (acc, n, c # cs))"

definition invalid_literal :: "string \<Rightarrow> exn" where
  "invalid_literal s =
     ValueError (''invalid literal for int() with base 10: '' @ take 200 (py_repr s))"

definition py_int :: "string \<Rightarrow> exn + int" where
  "py_int s =
     (let t = dropWhile int_space s;
          neg = (t \<noteq> [] \<and> hd t = CHR ''-'');
          u = (if t \<noteq> [] \<and> (hd t = CHR ''-'' \<or> hd t = CHR ''+'') then tl t else t)
      in case scan_digits True 0 0 u of
           None \<Rightarrow> Inl (invalid_literal s)
         | Some (v, n, rest) \<Rightarrow>
             if n > 4300 then
               Inl (ValueError
                     (''Exceeds the limit (4300 digits) for integer string conversion: ''
                      @ ''value has '' @ show_nat n
                      @ '' digits; use sys.set_int_max_str_digits() to increase the limit''))
             else if dropWhile int_space rest \<noteq> [] then Inl (invalid_literal s)
             else Inr (if neg then - int v else int v))"

text \<open>\<open>s.split(c)\<close>\<close>

fun split_on :: "char \<Rightarrow> string \<Rightarrow> string list" where
  "split_on c [] = [[]]"
| "split_on c (x # xs) =
     (if x = c then [] # split_on c xs
      else (case split_on c xs of w # ws \<Rightarrow> (x # w) # ws | [] \<Rightarrow> [[x]]))"

text \<open>
  \<open>s.replace(old, new)\<close>: the occurrences of \<open>old\<close> are found from the left and do not
  overlap; an empty \<open>old\<close> matches before every character and at the end.
\<close>

function py_replace :: "string \<Rightarrow> string \<Rightarrow> string \<Rightarrow> string" where
  "py_replace old new s =
     (if old = [] then new @ concat (map (\<lambda>c. c # new) s)
      else if s = [] then []
      else if prefix old s then new @ py_replace old new (drop (length old) s)
      else hd s # py_replace old new (tl s))"
  by pat_completeness auto
termination
  by (relation "measure (\<lambda>(old, new, s). length s)") auto

declare py_replace.simps [simp del]

section \<open>Binary floating point\<close>

text \<open>
  \<open>f64 x\<close> is the binary64 value nearest to \<open>x\<close>, ties to the even significand
  (53 bits). The exponent range is unbounded here: overflow to infinity, subnormal numbers
  and NaN are outside the model.
\<close>

definition pow2 :: "int \<Rightarrow> real" where
  "pow2 e = (if 0 \<le> e then 2 ^ nat e else 1 / 2 ^ nat (- e))"

definition rne :: "real \<Rightarrow> int" where
  "rne x =
     (let f = \<lfloor>x\<rfloor>; d = x - of_int f
      in if d < 1 / 2 then f else if 1 / 2 < d then f + 1 else if even f then f else f + 1)"

definition f64 :: "real \<Rightarrow> real" where
  "f64 x =
     (if x = 0 then 0
      else let e = \<lfloor>log 2 \<bar>x\<bar>\<rfloor> - 52 in of_int (rne (x / pow2 e)) * pow2 e)"

text \<open>
  \<open>float(v)\<close>. Parsing a string is Python's own and is a parameter \<open>pf\<close>
  (\<open>None\<close> when the text is no number). An integer is rounded to the nearest double;
  when that is \<open>2 ^ 1024\<close> or more in magnitude, \<open>float\<close> raises \<open>OverflowError\<close>.
\<close>

fun py_float :: "(string \<Rightarrow> real option) \<Rightarrow> json \<Rightarrow> exn + real" where
  "py_float pf (JInt i) =
     (if 2 ^ 1024 \<le> \<bar>f64 (of_int i)\<bar> then
        Inl (OverflowError ''int too large to convert to float'')
      else Inr (f64 (of_int i)))"
| "py_float pf (JFloat r) = Inr r"
| "py_float pf (JBool b) = Inr (if b then 1 else 0)"
| "py_float pf (JStr s) =
     (case pf s of
        Some r \<Rightarrow> Inr r
      | None \<Rightarrow> Inl (ValueError (''could not convert string to float: '' @ py_repr s)))"
| "py_float pf v =
     Inl (TypeError (''float() argument must be a string or a real number, not ''
                       @ [CHR 0x27] @ type_name v @ [CHR 0x27]))"

section \<open>Calculator tools (tools/calc\_tools.py)\<close>

datatype factor = Scalar real | Callable "real \<Rightarrow> real"

definition CONVERSION_FACTORS :: "(string \<times> factor) list" where
  "CONVERSION_FACTORS =
     [(''mm_to_cm'', Scalar (f64 (1 / 10))),
      (''cm_to_m'', Scalar (f64 (1 / 100))),
      (''m_to_km'', Scalar (f64 (1 / 1000))),
      (''in_to_ft'', Scalar (f64 (1 / 12))),
      (''ft_to_yd'', Scalar (f64 (1 / 3))),
      (''yd_to_mi'', Scalar (f64 (1 / 1760))),
      (''g_to_kg'', Scalar (f64 (1 / 1000))),
      (''kg_to_lb'', Scalar (f64 (220462 / 100000))),
      (''lb_to_oz'', Scalar 16),
      (''celsius_to_fahrenheit'', Callable (\<lambda>c. f64 (f64 (f64 (c * 9) / 5) + 32))),
      (''fahrenheit_to_celsius'', Callable (\<lambda>f. f64 (f64 (f64 (f - 32) * 5) / 9))),
      (''celsius_to_kelvin'', Callable (\<lambda>c. f64 (c + f64 (27315 / 100)))),
      (''kelvin_to_celsius'', Callable (\<lambda>k. f64 (k - f64 (27315 / 100))))]"

text \<open>
  The result dictionaries, without their \<open>formatted\<close> entry (a rendering of the floats
  as text).
\<close>

record basic_result =
  operation :: string
  inputs :: "real \<times> real"
  result :: real

definition calculate_basic ::
  "(string \<Rightarrow> real option) \<Rightarrow> string \<Rightarrow> (string \<rightharpoonup> json) \<Rightarrow> exn + basic_result" where
  "calculate_basic pf op args =
     reraise ''Invalid input: '' ''Calculation error: ''
       (case py_float pf (dict_get args ''a'' (JInt 0)) of
          Inl e \<Rightarrow> Inl e
        | Inr a \<Rightarrow>
            (case py_float pf (dict_get args ''b'' (JInt 0)) of
               Inl e \<Rightarrow> Inl e
             | Inr b \<Rightarrow>
                 (if op = ''add'' then
                    Inr \<lparr>operation = op, inputs = (a, b), result = f64 (a + b)\<rparr>
                  else if op = ''subtract'' then
                    Inr \<lparr>operation = op, inputs = (a, b), result = f64 (a - b)\<rparr>
                  else if op = ''multiply'' then
                    Inr \<lparr>operation = op, inputs = (a, b), result = f64 (a * b)\<rparr>
                  else if op = ''divide'' then
                    (if b = 0 then Inl (ValueError ''Cannot divide by zero'')
                     else Inr \<lparr>operation = op, inputs = (a, b), result = f64 (a / b)\<rparr>)
                  else Inl (ValueError (''Unknown operation: '' @ op)))))"

record convert_result =
  original_value :: real
  from_unit :: string
  to_unit :: string
  converted_value :: real

text \<open>\<open>args.get(key, "").lower()\<close>: only a \<open>str\<close> has the method.\<close>

definition get_lower :: "(string \<rightharpoonup> json) \<Rightarrow> string \<Rightarrow> exn + string" where
  "get_lower args k =
     (case dict_get args k (JStr '''') of
        JStr s \<Rightarrow> Inr (lower s)
      | v \<Rightarrow> Inl (AttributeError ([CHR 0x27] @ type_name v @ [CHR 0x27]
                     @ '' object has no attribute '' @ [CHR 0x27] @ ''lower'' @ [CHR 0x27])))"

definition convert_value :: "real \<Rightarrow> string \<Rightarrow> string \<Rightarrow> exn + real" where
  "convert_value v from to =
     (let conversion_key = from @ ''_to_'' @ to in
      case map_of CONVERSION_FACTORS conversion_key of
        Some (Callable f) \<Rightarrow> Inr (f v)
      | Some (Scalar k) \<Rightarrow> Inr (f64 (v * k))
      | None \<Rightarrow>
          (let reverse_key = to @ ''_to_'' @ from in
           case map_of CONVERSION_FACTORS reverse_key of
             Some (Callable f) \<Rightarrow>
               (if sublist ''celsius'' reverse_key \<and> sublist ''fahrenheit'' reverse_key then
                  Inr (f64 (f64 (f64 (v - 32) * 5) / 9))
                else if sublist ''fahrenheit'' reverse_key \<and> sublist ''celsius'' reverse_key then
                  Inr (f64 (f64 (f64 (v * 9) / 5) + 32))
                else Inl (ValueError (''Cannot reverse convert '' @ from @ '' to '' @ to)))
           | Some (Scalar k) \<Rightarrow> Inr (f64 (v / k))
           | None \<Rightarrow>
               Inl (ValueError (''Conversion from '' @ from @ '' to '' @ to @ '' not supported''))))"

definition convert_units ::
  "(string \<Rightarrow> real option) \<Rightarrow> (string \<rightharpoonup> json) \<Rightarrow> exn + convert_result" where
  "convert_units pf args =
     reraise ''Invalid input: '' ''Conversion error: ''
       (case py_float pf (dict_get args ''value'' (JInt 0)) of
          Inl e \<Rightarrow> Inl e
        | Inr v \<Rightarrow>
            (case get_lower args ''from_unit'' of
               Inl e \<Rightarrow> Inl e
             | Inr from \<Rightarrow>
                 (case get_lower args ''to_unit'' of
                    Inl e \<Rightarrow> Inl e
                  | Inr to \<Rightarrow>
                      (case convert_value v from to of
                         Inl e \<Rightarrow> Inl e
                       | Inr r \<Rightarrow>
                           Inr \<lparr>original_value = v, from_unit = from, to_unit = to,
                                converted_value = r\<rparr>))))"

section \<open>The dispatcher (server.py)\<close>

text \<open>
  A handler takes the argument dictionary and the world it may read and change, and either
  raises or returns its result. The twelve tool functions the dispatcher routes to are the
  fields of \<open>handlers\<close>; the dispatcher is modelled for any of them.
\<close>

type_synonym ('r, 'w) handler = "(string \<rightharpoonup> json) \<Rightarrow> 'w \<Rightarrow> (exn + 'r) \<times> 'w"

record ('r, 'w) handlers =
  h_calculate_basic :: "string \<Rightarrow> ('r, 'w) handler"
  h_calculate_advanced :: "string \<Rightarrow> ('r, 'w) handler"
  h_convert_units :: "('r, 'w) handler"
  h_read_file_content :: "('r, 'w) handler"
  h_write_file_content :: "('r, 'w) handler"
  h_list_directory :: "('r, 'w) handler"
  h_fetch_webpage :: "('r, 'w) handler"
  h_search_web :: "('r, 'w) handler"
  h_download_file :: "('r, 'w) handler"
  h_analyze_csv :: "('r, 'w) handler"
  h_process_json :: "('r, 'w) handler"
  h_generate_report :: "('r, 'w) handler"

record text_content =
  tc_type :: string
  tc_text :: string

record call_tool_result =
  content :: "text_content list"

text \<open>The body of the \<open>try\<close> block of \<open>handle_call_tool\<close>: the routing chain.\<close>

definition route_tool ::
  "('r, 'w) handlers \<Rightarrow> string \<Rightarrow> (string \<rightharpoonup> json) \<Rightarrow> 'w \<Rightarrow> (exn + 'r) \<times> 'w" where
  "route_tool h tool_name arguments w =
     (if tool_name \<in> set [''add'', ''subtract'', ''multiply'', ''divide''] then
        h_calculate_basic h tool_name arguments w
      else if tool_name \<in> set [''power'', ''sqrt'', ''log'', ''sin'', ''cos'', ''tan''] then
        h_calculate_advanced h tool_name arguments w
      else if tool_name = ''convert_units'' then h_convert_units h arguments w
      else if tool_name = ''read_file'' then h_read_file_content h arguments w
      else if tool_name = ''write_file'' then h_write_file_content h arguments w
      else if tool_name = ''list_directory'' then h_list_directory h arguments w
      else if tool_name = ''fetch_webpage'' then h_fetch_webpage h arguments w
      else if tool_name = ''search_web'' then h_search_web h arguments w
      else if tool_name = ''download_file'' then h_download_file h arguments w
      else if tool_name = ''analyze_csv'' then h_analyze_csv h arguments w
      else if tool_name = ''process_json'' then h_process_json h arguments w
      else if tool_name = ''generate_report'' then h_generate_report h arguments w
      else (Inl (ValueError (''Unknown tool: '' @ tool_name)), w))"

text \<open>
  \<open>handle_call_tool\<close>: \<open>request.params.arguments or {}\<close>, the routing, and the
  \<open>except Exception\<close> clause. \<open>str_of\<close> is Python's \<open>str\<close> on a handler's result.
  Logging is left out.
\<close>

definition handle_call_tool ::
  "('r, 'w) handlers \<Rightarrow> ('r \<Rightarrow> string) \<Rightarrow> string \<Rightarrow> (string \<rightharpoonup> json) option \<Rightarrow> 'w
     \<Rightarrow> call_tool_result \<times> 'w" where
  "handle_call_tool h str_of tool_name request_arguments w =
     (let arguments = (case request_arguments of None \<Rightarrow> Map.empty | Some a \<Rightarrow> a) in
      case route_tool h tool_name arguments w of
        (Inr r, w') \<Rightarrow> (\<lparr>content = [\<lparr>tc_type = ''text'', tc_text = str_of r\<rparr>]\<rparr>, w')
      | (Inl e, w') \<Rightarrow>
          (\<lparr>content = [\<lparr>tc_type = ''text'', tc_text = ''Error: '' @ str_exn e\<rparr>]\<rparr>, w'))"

text \<open>The names \<open>_register_tools\<close> enters into \<open>self.tools\<close>.\<close>

definition registered_tools :: "string list" where
  "registered_tools =
     [''add'', ''subtract'', ''multiply'', ''divide'', ''power'', ''sqrt'', ''log'', ''sin'',
      ''cos'', ''tan'', ''convert_units'',
      ''read_file'', ''write_file'', ''list_directory'',
      ''fetch_webpage'', ''search_web'', ''download_file'',
      ''analyze_csv'', ''process_json'', ''generate_report'']"

section \<open>Resources (resources/file\_resources.py, server.py)\<close>

text \<open>
  \<open>mcp.types.Resource\<close> keeps its \<open>uri\<close> as a pydantic \<open>AnyUrl\<close>, and so does the
  request that \<open>handle_read_resource\<close> is declared to take. The text given to the
  constructor is validated and normalised (percent-encoded, among other things); this is
  pydantic's and is the parameter \<open>to_url\<close>, which raises a \<open>ValidationError\<close>, a
  \<open>ValueError\<close>, on text that is no URL. The object made is not a \<open>str\<close>: \<open>str(uri)\<close> gives
  its text, and two of them are equal when their texts are.
\<close>

datatype any_url = AnyUrl string

fun str_url :: "any_url \<Rightarrow> string" where
  "str_url (AnyUrl s) = s"

record resource =
  uri :: any_url
  res_name :: string
  res_description :: string
  mimeType :: string

definition Resource ::
  "(string \<Rightarrow> exn + any_url) \<Rightarrow> string \<Rightarrow> string \<Rightarrow> string \<Rightarrow> string \<Rightarrow> exn + resource" where
  "Resource to_url u n d m =
     (case to_url u of
        Inl e \<Rightarrow> Inl e
      | Inr v \<Rightarrow> Inr \<lparr>uri = v, res_name = n, res_description = d, mimeType = m\<rparr>)"

text \<open>\<open>Path.name\<close>: the last component of a path.\<close>

definition path_name :: "string \<Rightarrow> string" where
  "path_name p = last (split_on CHR ''/'' p)"

text \<open>Constructor calls made one after the other: the first that raises ends the function.\<close>

fun in_order :: "(exn + 'a) list \<Rightarrow> exn + 'a list" where
  "in_order [] = Inr []"
| "in_order (x # xs) =
     (case x of
        Inl e \<Rightarrow> Inl e
      | Inr v \<Rightarrow> (case in_order xs of Inl e \<Rightarrow> Inl e | Inr vs \<Rightarrow> Inr (v # vs)))"

text \<open>
  \<open>get_file_resources\<close>. The three lists are what \<open>data_dir.glob\<close> yields for \<open>*.txt\<close>,
  \<open>*.csv\<close> and \<open>*.json\<close> (nothing when the directory does not exist).
\<close>

definition get_file_resources ::
  "(string \<Rightarrow> exn + any_url) \<Rightarrow> string list \<Rightarrow> string list \<Rightarrow> string list \<Rightarrow> exn + resource list" where
  "get_file_resources to_url txts csvs jsons =
     in_order
       (map (\<lambda>file_path. Resource to_url (''file://'' @ file_path) (path_name file_path)
                           (''Text file: '' @ path_name file_path) ''text/plain'') txts
        @ map (\<lambda>file_path. Resource to_url (''file://'' @ file_path) (path_name file_path)
                             (''CSV data file: '' @ path_name file_path) ''text/csv'') csvs
        @ map (\<lambda>file_path. Resource to_url (''file://'' @ file_path) (path_name file_path)
                             (''JSON data file: '' @ path_name file_path) ''application/json'')
              jsons
        @ [Resource to_url ''system://status'' ''System Status''
             ''Current system status and information'' ''application/json'',
           Resource to_url ''system://logs'' ''System Logs'' ''Recent system logs''
             ''text/plain''])"

text \<open>\<open>_register_resources\<close>: a later resource with the same URI replaces the earlier one.\<close>

definition register_resources :: "resource list \<Rightarrow> (any_url \<rightharpoonup> resource)" where
  "register_resources rs = foldl (\<lambda>m r. m(uri r \<mapsto> r)) Map.empty rs"

record read_resource_result =
  contents :: "text_content list"

text \<open>
  An \<open>AnyUrl\<close> has none of the methods of \<open>str\<close>: looking up \<open>startswith\<close> on it raises
  \<open>AttributeError\<close>, and slicing it raises \<open>TypeError\<close>. \<open>cls\<close> is the name under which the
  class of the object appears in these messages (\<open>AnyUrl\<close> from pydantic 2.10 on, the name of
  the URL class of \<open>pydantic_core\<close> before).
\<close>

definition url_startswith :: "string \<Rightarrow> any_url \<Rightarrow> string \<Rightarrow> exn + bool" where
  "url_startswith cls u p =
     Inl (AttributeError ([CHR 0x27] @ cls @ [CHR 0x27] @ '' object has no attribute ''
                          @ [CHR 0x27] @ ''startswith'' @ [CHR 0x27]))"

definition url_slice :: "string \<Rightarrow> any_url \<Rightarrow> nat \<Rightarrow> exn + string" where
  "url_slice cls u n =
     Inl (TypeError ([CHR 0x27] @ cls @ [CHR 0x27] @ '' object is not subscriptable''))"

text \<open>
  \<open>handle_read_resource\<close>. \<open>fs path\<close> is what opening and reading the file gives: its
  text, or the exception raised. Whatever the \<open>try\<close> block raises is logged and raised again.
\<close>

definition handle_read_resource ::
  "(any_url \<rightharpoonup> resource) \<Rightarrow> (string \<Rightarrow> exn + string) \<Rightarrow> string \<Rightarrow> any_url
     \<Rightarrow> exn + read_resource_result" where
  "handle_read_resource resources fs cls u =
     (if resources u = None then Inl (ValueError (''Resource not found: '' @ str_url u))
      else
        (case url_startswith cls u ''file://'' of
           Inl e \<Rightarrow> Inl e
         | Inr is_file \<Rightarrow>
             if is_file then
               (case url_slice cls u 7 of
                  Inl e \<Rightarrow> Inl e
                | Inr file_path \<Rightarrow>
                    (case fs file_path of
                       Inl e \<Rightarrow> Inl e
                     | Inr c \<Rightarrow> Inr \<lparr>contents = [\<lparr>tc_type = ''text'', tc_text = c\<rparr>]\<rparr>))
             else Inl (ValueError (''Unsupported resource type: '' @ str_url u))))"

section \<open>Data tools (tools/data\_tools.py)\<close>

subsection \<open>process\_json\<close>






text \<open>
  The extraction as the specification words it: the path is followed segment by segment, a
  numeric segment indexes an array, and the failures are named by kind. A numeric segment
  is read here as a decimal numeral: one or more digits, with the value they denote. The
  fourth kind is the case the specification leaves open, a segment applied to a value that
  is neither an object nor an array.
\<close>

definition spec_numeral :: "string \<Rightarrow> nat option" where
  "spec_numeral seg =
     (if seg \<noteq> [] \<and> list_all (\<lambda>c. c \<in> set ''0123456789'') seg
      then Some (foldl (\<lambda>a c. 10 * a + (of_char c - of_char CHR ''0'')) 0 seg)
      else None)"





text \<open>
  The segments on which the two readings of "numeric" are compared: a decimal numeral of at
  most 4300 digits, or a text that no integer literal can be, being empty or holding a
  character that is neither a digit, a sign, an underscore nor whitespace. \<open>plain_at\<close> asks
  this of the segments of a path that meet an array.
\<close>

definition literal_char :: "char \<Rightarrow> bool" where
  "literal_char c =
     (c \<in> set ''0123456789+-_'' \<or> of_char c \<in> set [9, 10, 11, 12, 13, 32, 133, 160 :: nat])"

definition plain :: "string \<Rightarrow> bool" where
  "plain seg =
     (case spec_numeral seg of
        Some i \<Rightarrow> length seg \<le> 4300
      | None \<Rightarrow> seg = [] \<or> list_ex (\<lambda>c. \<not> literal_char c) seg)"


section \<open>Web tools (tools/web\_tools.py)\<close>

text \<open>
  \<open>download_file\<close>, for string-valued arguments as the tool's schema declares them. What
  it reads from outside is \<open>urlparse\<close> and the answer of the HTTP server; what it changes
  is the world: the connections opened, the files on disk, and the text printed. The
  semaphore that bounds concurrent requests is left out: calls are modelled one at a time.
\<close>

record parsed_url =
  url_scheme :: string
  url_netloc :: string
  url_path :: string

record response =
  status :: int
  content_length :: "string option"
  content_type :: "string option"
  chunks :: "string list"
  body_error :: "exn option"

record net_env =
  urlparse :: "string \<Rightarrow> exn + parsed_url"
  http_get :: "string \<Rightarrow> exn + response"

record world =
  connections :: "string list"
  disk :: "string \<rightharpoonup> string"
  stdout :: "string list"

definition ALLOWED_DOMAINS :: "string list" where
  "ALLOWED_DOMAINS = [''example.com'', ''httpbin.org'', ''jsonplaceholder.typicode.com'']"

definition MAX_RESPONSE_SIZE :: nat where
  "MAX_RESPONSE_SIZE = 1024 * 1024"

text \<open>\<open>_validate_url\<close>: every exception of the body is raised again as a \<open>ValueError\<close>.\<close>

definition validate_url :: "net_env \<Rightarrow> string \<Rightarrow> world \<Rightarrow> (exn + string) \<times> world" where
  "validate_url env url w =
     (case urlparse env url of
        Inl e \<Rightarrow> (Inl (ValueError (''Invalid URL: '' @ str_exn e)), w)
      | Inr parsed \<Rightarrow>
          if url_scheme parsed \<notin> set [''http'', ''https''] then
            (Inl (ValueError (''Invalid URL: '' @ ''Only HTTP and HTTPS URLs are allowed'')), w)
          else if list_ex (\<lambda>domain. suffix domain (url_netloc parsed)) ALLOWED_DOMAINS then
            (Inr url, w)
          else
            (Inr url,
             w\<lparr>stdout := stdout w
                  @ [''Warning: Accessing domain not in whitelist: '' @ url_netloc parsed]\<rparr>))"

text \<open>The loop over \<open>iter_chunked\<close>: each chunk is written before the size is checked.\<close>

fun write_chunks ::
  "string \<Rightarrow> string list \<Rightarrow> nat \<Rightarrow> (string \<rightharpoonup> string) \<Rightarrow> (exn + nat) \<times> (string \<rightharpoonup> string)" where
  "write_chunks filename [] downloaded_size d = (Inr downloaded_size, d)"
| "write_chunks filename (chunk # rest) downloaded_size d =
     (let d' = d(filename \<mapsto> (case d filename of None \<Rightarrow> chunk | Some c \<Rightarrow> c @ chunk));
          size' = downloaded_size + length chunk
      in if size' > MAX_RESPONSE_SIZE then
           (Inl (ValueError (''File too large: '' @ show_nat size' @ '' bytes'')), d')
         else write_chunks filename rest size' d')"

record download_result =
  dl_url :: string
  dl_filename :: string
  dl_size :: nat
  dl_content_type :: string
  dl_success :: bool

text \<open>The part of \<open>download_file\<close> after the filename check: the request and the transfer.\<close>

definition fetch_to_file ::
  "net_env \<Rightarrow> string \<Rightarrow> string \<Rightarrow> world \<Rightarrow> (exn + download_result) \<times> world" where
  "fetch_to_file env validated_url filename w =
     (let w1 = w\<lparr>connections := connections w @ [validated_url]\<rparr> in
      case http_get env validated_url of
        Inl e \<Rightarrow> (Inl e, w1)
      | Inr resp \<Rightarrow>
          if status resp \<noteq> 200 then
            (Inl (Exception (''Download failed with status '' @ show_int (status resp))), w1)
          else
            (case (case content_length resp of
                     None \<Rightarrow> None
                   | Some cl \<Rightarrow>
                       if cl = [] then None
                       else (case py_int cl of
                               Inl e \<Rightarrow> Some e
                             | Inr n \<Rightarrow>
                                 if n > int MAX_RESPONSE_SIZE then
                                   Some (ValueError (''File too large: '' @ cl @ '' bytes''))
                                 else None)) of
               Some e \<Rightarrow> (Inl e, w1)
             | None \<Rightarrow>
                 (case write_chunks filename (chunks resp) 0 ((disk w1)(filename \<mapsto> [])) of
                    (Inl e, d) \<Rightarrow> (Inl e, w1\<lparr>disk := d\<rparr>)
                  | (Inr n, d) \<Rightarrow>
                      (case body_error resp of
                         Some e \<Rightarrow> (Inl e, w1\<lparr>disk := d\<rparr>)
                       | None \<Rightarrow>
                           (Inr \<lparr>dl_url = validated_url, dl_filename = filename, dl_size = n,
                                 dl_content_type =
                                   (case content_type resp of None \<Rightarrow> [] | Some t \<Rightarrow> t),
                                 dl_success = True\<rparr>,
                            w1\<lparr>disk := d\<rparr>)))))"

text \<open>The body of the \<open>try\<close> block of \<open>download_file\<close>.\<close>

definition download_body ::
  "net_env \<Rightarrow> (string \<rightharpoonup> string) \<Rightarrow> world \<Rightarrow> (exn + download_result) \<times> world" where
  "download_body env args w =
     (let url = dict_get args ''url'' ''''; filename = dict_get args ''filename'' '''' in
      if url = [] then (Inl (ValueError ''url is required''), w)
      else
        (case validate_url env url w of
           (Inl e, w1) \<Rightarrow> (Inl e, w1)
         | (Inr validated_url, w1) \<Rightarrow>
             (case (if filename \<noteq> [] then Inr filename
                    else (case urlparse env validated_url of
                            Inl e \<Rightarrow> Inl e
                          | Inr parsed \<Rightarrow>
                              (let f = last (split_on CHR ''/'' (url_path parsed))
                               in Inr (if f = [] then ''downloaded_file'' else f)))) of
                Inl e \<Rightarrow> (Inl e, w1)
              | Inr filename \<Rightarrow>
                  if sublist ''..'' filename \<or> CHR ''/'' \<in> set filename then
                    (Inl (ValueError ''Invalid filename''), w1)
                  else fetch_to_file env validated_url filename w1)))"

definition download_file ::
  "net_env \<Rightarrow> (string \<rightharpoonup> string) \<Rightarrow> world \<Rightarrow> (exn + download_result) \<times> world" where
  "download_file env args w =
     (case download_body env args w of (r, w') \<Rightarrow> (reraise_all ''Download failed: '' r, w'))"

section \<open>Prompts (prompts/analysis\_prompts.py, server.py)\<close>

record prompt_argument =
  pa_name :: string
  pa_description :: string
  pa_required :: bool

record prompt =
  p_name :: string
  p_description :: "string option"
  p_arguments :: "prompt_argument list"

definition get_analysis_prompts :: "prompt list" where
  "get_analysis_prompts =
     [\<lparr>p_name = ''analyze_data'',
       p_description =
         Some ''Analyze data and provide insights on {data_type} with focus on {analysis_focus}'',
       p_arguments =
         [\<lparr>pa_name = ''data_type'',
           pa_description = ''Type of data to analyze (e.g., CSV, JSON, numerical)'',
           pa_required = True\<rparr>,
          \<lparr>pa_name = ''analysis_focus'',
           pa_description = ''Focus area for analysis (e.g., trends, anomalies, patterns)'',
           pa_required = True\<rparr>,
          \<lparr>pa_name = ''context'', pa_description = ''Additional context about the data'',
           pa_required = False\<rparr>]\<rparr>,
      \<lparr>p_name = ''code_review'',
       p_description = Some ''Review {language} code for {review_type} and provide suggestions'',
       p_arguments =
         [\<lparr>pa_name = ''language'',
           pa_description = ''Programming language (e.g., Python, JavaScript, Java)'',
           pa_required = True\<rparr>,
          \<lparr>pa_name = ''review_type'',
           pa_description = ''Type of review (e.g., security, performance, style)'',
           pa_required = True\<rparr>,
          \<lparr>pa_name = ''complexity_level'',
           pa_description = ''Code complexity level (beginner, intermediate, advanced)'',
           pa_required = False\<rparr>]\<rparr>,
      \<lparr>p_name = ''system_troubleshooting'',
       p_description = Some ''Troubleshoot {system_type} issues with {error_symptoms}'',
       p_arguments =
         [\<lparr>pa_name = ''system_type'',
           pa_description = ''Type of system (e.g., web server, database, network)'',
           pa_required = True\<rparr>,
          \<lparr>pa_name = ''error_symptoms'',
           pa_description = ''Observed error symptoms or issues'', pa_required = True\<rparr>,
          \<lparr>pa_name = ''urgency'',
           pa_description = ''Urgency level (low, medium, high, critical)'',
           pa_required = False\<rparr>]\<rparr>,
      \<lparr>p_name = ''documentation_generator'',
       p_description = Some ''Generate {doc_type} documentation for {subject}'',
       p_arguments =
         [\<lparr>pa_name = ''doc_type'',
           pa_description = ''Type of documentation (API, user guide, technical specs)'',
           pa_required = True\<rparr>,
          \<lparr>pa_name = ''subject'',
           pa_description = ''Subject to document (function, module, system)'',
           pa_required = True\<rparr>,
          \<lparr>pa_name = ''audience'',
           pa_description = ''Target audience (developers, users, administrators)'',
           pa_required = False\<rparr>,
          \<lparr>pa_name = ''format'',
           pa_description = ''Output format (markdown, HTML, plain text)'',
           pa_required = False\<rparr>]\<rparr>,
      \<lparr>p_name = ''performance_analysis'',
       p_description =
         Some (''Analyze performance metrics for {system_component} and identify ''
               @ ''optimization opportunities''),
       p_arguments =
         [\<lparr>pa_name = ''system_component'',
           pa_description = ''System component to analyze (API, database, frontend)'',
           pa_required = True\<rparr>,
          \<lparr>pa_name = ''metrics_data'',
           pa_description = ''Performance metrics data or description'',
           pa_required = True\<rparr>,
          \<lparr>pa_name = ''baseline_period'',
           pa_description = ''Baseline period for comparison'', pa_required = False\<rparr>]\<rparr>]"

text \<open>\<open>_register_prompts\<close>\<close>

definition register_prompts :: "prompt list \<Rightarrow> (string \<rightharpoonup> prompt)" where
  "register_prompts ps = foldl (\<lambda>m p. m(p_name p \<mapsto> p)) Map.empty ps"

record prompt_message =
  role :: string
  pm_content :: text_content

record get_prompt_result =
  gp_description :: "string option"
  messages :: "prompt_message list"

text \<open>
  \<open>handle_get_prompt\<close>. The arguments of the request are a dictionary from \<open>str\<close> to
  \<open>str\<close>, or absent; they are listed here in the order of the dictionary, and \<open>str(value)\<close>
  is the value. The keys are substituted one after the other, each \<open>replace\<close> working on
  the result of the one before.
\<close>

definition handle_get_prompt ::
  "(string \<rightharpoonup> prompt) \<Rightarrow> string \<Rightarrow> (string \<times> string) list option \<Rightarrow> exn + get_prompt_result" where
  "handle_get_prompt prompts prompt_name request_arguments =
     (let arguments = (case request_arguments of None \<Rightarrow> [] | Some a \<Rightarrow> a) in
      case prompts prompt_name of
        None \<Rightarrow> Inl (ValueError (''Prompt not found: '' @ prompt_name))
      | Some prompt \<Rightarrow>
          (let description =
                 (case p_description prompt of
                    None \<Rightarrow> None
                  | Some d \<Rightarrow>
                      if d = [] then Some d
                      else Some (foldl (\<lambda>description (key, value).
                                          py_replace (''{'' @ key @ ''}'') value description)
                                   d arguments))
           in Inr \<lparr>gp_description = description,
                   messages =
                     [\<lparr>role = ''user'',
                       pm_content =
                         \<lparr>tc_type = ''text'',
                          tc_text = (case description of None \<Rightarrow> [] | Some d \<Rightarrow> d)\<rparr>\<rparr>]\<rparr>))"

text \<open>
  The substitution as the specification words it. A template is literal text with
  placeholders in it; it is resolved against a mapping by putting the mapped value in the
  place of each placeholder whose key is mapped and leaving every other placeholder as it is
  written. \<open>fill\<close> resolves the placeholders of one key only.
\<close>

datatype piece = Lit string | Hole string

fun spec_render :: "(string \<rightharpoonup> string) \<Rightarrow> piece list \<Rightarrow> string" where
  "spec_render m [] = []"
| "spec_render m (Lit a # t) = a @ spec_render m t"
| "spec_render m (Hole k # t) =
     (case m k of Some v \<Rightarrow> v | None \<Rightarrow> ''{'' @ k @ ''}'') @ spec_render m t"

fun well_formed :: "piece list \<Rightarrow> bool" where
  "well_formed [] = True"
| "well_formed (Lit a # t) = (CHR ''{'' \<notin> set a \<and> well_formed t)"
| "well_formed (Hole k # t) = (CHR ''{'' \<notin> set k \<and> CHR ''}'' \<notin> set k \<and> well_formed t)"

fun fill :: "string \<Rightarrow> string \<Rightarrow> piece list \<Rightarrow> piece list" where
  "fill k v [] = []"
| "fill k v (Lit a # t) = Lit a # fill k v t"
| "fill k v (Hole k' # t) = (if k' = k then Lit v else Hole k') # fill k v t"

section \<open>Properties\<close>

subsection \<open>Evaluating the rounding\<close>

lemma f64_zero: "f64 0 = 0"
  by (simp add: f64_def)

lemma pow2_powr: "pow2 k = 2 powr (real_of_int k)"
  by (simp add: pow2_def powr_int)

lemma pow2_pos: "0 < pow2 k"
  by (simp add: pow2_powr)

text \<open>Once the binade of \<open>x\<close> is known, \<open>f64 x\<close> is a computation on numerals.\<close>

lemma f64_eval:
  assumes "pow2 k \<le> \<bar>x\<bar>" and "\<bar>x\<bar> < pow2 (k + 1)"
  shows "f64 x = of_int (rne (x / pow2 (k - 52))) * pow2 (k - 52)"
proof -
  have pos: "0 < \<bar>x\<bar>"
    using assms(1) pow2_pos [of k] by linarith
  then have nz: "x \<noteq> 0"
    by auto
  have "\<lfloor>log 2 \<bar>x\<bar>\<rfloor> = k"
    using assms pos by (simp add: floor_log_eq_powr_iff pow2_powr)
  then show ?thesis
    using nz by (simp add: f64_def Let_def)
qed

lemma f64_five: "f64 5 = 5"
  using f64_eval [of 2 5] by (simp add: pow2_def rne_def)

lemma f64_hundredth: "f64 (1 / 100) = 5764607523034235 / 2 ^ 59"
  using f64_eval [of "-7" "1 / 100"] by (simp add: pow2_def rne_def)

lemma f64_35_div_100: "f64 (35 / 100) = 6305039478318694 / 2 ^ 54"
  using f64_eval [of "-2" "35 / 100"] by (simp add: pow2_def rne_def)

lemma f64_35_times_hundredth:
  "f64 (35 * (5764607523034235 / 2 ^ 59)) = 6305039478318695 / 2 ^ 54"
  using f64_eval [of "-2" "35 * (5764607523034235 / 2 ^ 59)"] by (simp add: pow2_def rne_def)

lemma f64_100_times_hundredth: "f64 (100 * (5764607523034235 / 2 ^ 59)) = 1"
  using f64_eval [of 0 "100 * (5764607523034235 / 2 ^ 59)"] by (simp add: pow2_def rne_def)

lemma cm_m_of_35: "f64 (35 * f64 (1 / 100)) = 6305039478318695 / 2 ^ 54"
  by (simp only: f64_hundredth f64_35_times_hundredth)

lemma cm_m_of_100: "f64 (100 * f64 (1 / 100)) = 1"
  by (simp only: f64_hundredth f64_100_times_hundredth)

subsection \<open>The dispatcher\<close>

lemma route_tool_unknown:
  "name \<notin> set registered_tools \<Longrightarrow>
     route_tool h name a w = (Inl (ValueError (''Unknown tool: '' @ name)), w)"
  by (simp add: route_tool_def registered_tools_def)

text \<open>
  C1. Whatever the routed handler does, \<open>handle_call_tool\<close> returns an envelope with one
  text item; when the routing raises \<open>e\<close> (a handler's exception or the unknown-name
  \<open>ValueError\<close>), the text is \<open>Error: \<close> followed by \<open>str(e)\<close>, the same shape
  as a success.
\<close>

theorem handle_call_tool_catches:
  "(\<exists>t w'. handle_call_tool h str_of name ra w =
              (\<lparr>content = [\<lparr>tc_type = ''text'', tc_text = t\<rparr>]\<rparr>, w'))
   \<and> (\<forall>e w'. route_tool h name (case ra of None \<Rightarrow> Map.empty | Some a \<Rightarrow> a) w = (Inl e, w')
         \<longrightarrow> handle_call_tool h str_of name ra w =
              (\<lparr>content = [\<lparr>tc_type = ''text'', tc_text = ''Error: '' @ str_exn e\<rparr>]\<rparr>, w'))"
  by (auto simp: handle_call_tool_def split: prod.splits sum.splits)

theorem handle_call_tool_catches_witness:
  "route_tool
     \<lparr>h_calculate_basic = (\<lambda>op a w. (calculate_basic (\<lambda>s. None) op a, w)),
      h_calculate_advanced = (\<lambda>op a w. (Inl (Exception ''down''), w)),
      h_convert_units = (\<lambda>a w. (Inl (Exception ''down''), w)),
      h_read_file_content = (\<lambda>a w. (Inl (Exception ''down''), w)),
      h_write_file_content = (\<lambda>a w. (Inl (Exception ''down''), w)),
      h_list_directory = (\<lambda>a w. (Inl (Exception ''down''), w)),
      h_fetch_webpage = (\<lambda>a w. (Inl (Exception ''down''), w)),
      h_search_web = (\<lambda>a w. (Inl (Exception ''down''), w)),
      h_download_file = (\<lambda>a w. (Inl (Exception ''down''), w)),
      h_analyze_csv = (\<lambda>a w. (Inl (Exception ''down''), w)),
      h_process_json = (\<lambda>a w. (Inl (Exception ''down''), w)),
      h_generate_report = (\<lambda>a w. (Inl (Exception ''down''), w))\<rparr>
     ''divide'' [''a'' \<mapsto> JFloat 1] ()
     = (Inl (ValueError ''Invalid input: Cannot divide by zero''), ())
   \<and> handle_call_tool
     \<lparr>h_calculate_basic = (\<lambda>op a w. (calculate_basic (\<lambda>s. None) op a, w)),
      h_calculate_advanced = (\<lambda>op a w. (Inl (Exception ''down''), w)),
      h_convert_units = (\<lambda>a w. (Inl (Exception ''down''), w)),
      h_read_file_content = (\<lambda>a w. (Inl (Exception ''down''), w)),
      h_write_file_content = (\<lambda>a w. (Inl (Exception ''down''), w)),
      h_list_directory = (\<lambda>a w. (Inl (Exception ''down''), w)),
      h_fetch_webpage = (\<lambda>a w. (Inl (Exception ''down''), w)),
      h_search_web = (\<lambda>a w. (Inl (Exception ''down''), w)),
      h_download_file = (\<lambda>a w. (Inl (Exception ''down''), w)),
      h_analyze_csv = (\<lambda>a w. (Inl (Exception ''down''), w)),
      h_process_json = (\<lambda>a w. (Inl (Exception ''down''), w)),
      h_generate_report = (\<lambda>a w. (Inl (Exception ''down''), w))\<rparr>
     (\<lambda>r. ''ok'') ''divide'' (Some [''a'' \<mapsto> JFloat 1]) ()
     = (\<lparr>content = [\<lparr>tc_type = ''text'',
                        tc_text = ''Error: Invalid input: Cannot divide by zero''\<rparr>]\<rparr>, ())"
proof -
  let ?h = "\<lparr>h_calculate_basic = (\<lambda>op a w. (calculate_basic (\<lambda>s. None) op a, w)),
      h_calculate_advanced = (\<lambda>op a w. (Inl (Exception ''down''), w)),
      h_convert_units = (\<lambda>a w. (Inl (Exception ''down''), w)),
      h_read_file_content = (\<lambda>a w. (Inl (Exception ''down''), w)),
      h_write_file_content = (\<lambda>a w. (Inl (Exception ''down''), w)),
      h_list_directory = (\<lambda>a w. (Inl (Exception ''down''), w)),
      h_fetch_webpage = (\<lambda>a w. (Inl (Exception ''down''), w)),
      h_search_web = (\<lambda>a w. (Inl (Exception ''down''), w)),
      h_download_file = (\<lambda>a w. (Inl (Exception ''down''), w)),
      h_analyze_csv = (\<lambda>a w. (Inl (Exception ''down''), w)),
      h_process_json = (\<lambda>a w. (Inl (Exception ''down''), w)),
      h_generate_report = (\<lambda>a w. (Inl (Exception ''down''), w))\<rparr>
      :: (basic_result, unit) handlers"
  have r: "route_tool ?h ''divide'' [''a'' \<mapsto> JFloat 1] ()
             = (Inl (ValueError ''Invalid input: Cannot divide by zero''), ())"
    by (simp add: route_tool_def calculate_basic_def dict_get_def f64_zero)
  from handle_call_tool_catches
         [of ?h "\<lambda>r. ''ok''" "''divide''" "Some [''a'' \<mapsto> JFloat 1]" "()"] r
  show ?thesis
    by simp
qed

text \<open>
  C2. A name outside the registry is answered by the error envelope naming it, whatever the
  handlers are and with the world untouched: no handler stands in for the unknown name.
\<close>

theorem unknown_tool_is_error:
  "name \<notin> set registered_tools \<Longrightarrow>
     handle_call_tool h str_of name ra w =
       (\<lparr>content = [\<lparr>tc_type = ''text'', tc_text = ''Error: Unknown tool: '' @ name\<rparr>]\<rparr>, w)"
  by (simp add: handle_call_tool_def route_tool_unknown)

theorem unknown_tool_is_error_witness:
  "''frobnicate'' \<notin> set registered_tools
   \<and> (\<forall>h :: (unit, unit) handlers.
        handle_call_tool h (\<lambda>r. ''ok'') ''frobnicate'' (Some [''a'' \<mapsto> JInt 1]) () =
          (\<lparr>content = [\<lparr>tc_type = ''text'', tc_text = ''Error: Unknown tool: frobnicate''\<rparr>]\<rparr>,
           ()))"
proof (intro conjI allI)
  show n: "''frobnicate'' \<notin> set registered_tools"
    by (simp add: registered_tools_def)
  fix h :: "(unit, unit) handlers"
  from unknown_tool_is_error [OF n, of h "\<lambda>r. ''ok''" "Some [''a'' \<mapsto> JInt 1]" "()"]
  show "handle_call_tool h (\<lambda>r. ''ok'') ''frobnicate'' (Some [''a'' \<mapsto> JInt 1]) () =
          (\<lparr>content = [\<lparr>tc_type = ''text'', tc_text = ''Error: Unknown tool: frobnicate''\<rparr>]\<rparr>,
           ())"
    by simp
qed

subsection \<open>Calculator tools\<close>

text \<open>
  C3. \<open>convert_units\<close> has no same-unit case: for metres to metres neither the key
  \<open>m_to_m\<close> nor its reverse is in the table, and the call raises instead of returning the
  value.
\<close>

theorem convert_units_same_unit_fails:
  "convert_units pf [''value'' \<mapsto> JInt 5, ''from_unit'' \<mapsto> JStr ''m'', ''to_unit'' \<mapsto> JStr ''m'']
     = Inl (ValueError ''Invalid input: Conversion from m to m not supported'')"
  by (simp add: convert_units_def dict_get_def get_lower_def lower_def lower_char_def
      convert_value_def CONVERSION_FACTORS_def f64_five)

lemma convert_value_cm_m: "convert_value v ''cm'' ''m'' = Inr (f64 (v * f64 (1 / 100)))"
  by (simp add: convert_value_def CONVERSION_FACTORS_def)

text \<open>
  C8, as stated, fails: 35 cm is converted to the double product \<open>35 * 0.01\<close>, which is
  one unit in the last place above the double quotient \<open>35 / 100\<close>, and is not the real
  number \<open>35 / 100\<close> either.
\<close>

theorem convert_cm_m_not_division:
  "convert_value 35 ''cm'' ''m'' \<noteq> Inr (f64 (35 / 100))
   \<and> convert_value 35 ''cm'' ''m'' \<noteq> Inr (35 / 100)"
  unfolding convert_value_cm_m cm_m_of_35 f64_35_div_100 by simp

text \<open>
  C8, amended. For every value the conversion from cm to m takes the direct table entry and
  returns the rounded product of the value with the double nearest to 1/100; for the value
  100 this is exactly 1.
\<close>

theorem convert_cm_m_is_product:
  "convert_units pf [''value'' \<mapsto> JFloat v, ''from_unit'' \<mapsto> JStr ''cm'', ''to_unit'' \<mapsto> JStr ''m'']
     = Inr \<lparr>original_value = v, from_unit = ''cm'', to_unit = ''m'',
            converted_value = f64 (v * f64 (1 / 100))\<rparr>
   \<and> f64 (100 * f64 (1 / 100)) = 1"
  unfolding cm_m_of_100
  by (simp add: convert_units_def dict_get_def get_lower_def lower_def lower_char_def
      convert_value_cm_m)

text \<open>
  C9. An operand that is absent from the arguments is read as the integer 0, for every
  operation name; no error about a missing argument arises, and \<open>add\<close> on the empty
  dictionary returns 0.
\<close>

theorem calculate_basic_missing_operand_is_zero:
  "(args ''a'' = None \<longrightarrow>
      calculate_basic pf op args = calculate_basic pf op (args(''a'' \<mapsto> JInt 0)))
   \<and> (args ''b'' = None \<longrightarrow>
      calculate_basic pf op args = calculate_basic pf op (args(''b'' \<mapsto> JInt 0)))
   \<and> calculate_basic pf ''add'' Map.empty =
        Inr \<lparr>operation = ''add'', inputs = (0, 0), result = 0\<rparr>"
  unfolding calculate_basic_def dict_get_def
  by (simp add: f64_zero cong: sum.case_cong)

theorem calculate_basic_missing_operand_is_zero_witness:
  "[''a'' \<mapsto> JFloat 7] ''b'' = None
   \<and> calculate_basic (\<lambda>s. None) ''multiply'' [''a'' \<mapsto> JFloat 7]
       = calculate_basic (\<lambda>s. None) ''multiply'' [''a'' \<mapsto> JFloat 7, ''b'' \<mapsto> JInt 0]
   \<and> calculate_basic (\<lambda>s. None) ''multiply'' [''a'' \<mapsto> JFloat 7]
       = Inr \<lparr>operation = ''multiply'', inputs = (7, 0), result = 0\<rparr>"
proof -
  have m: "[''a'' \<mapsto> JFloat 7] ''b'' = None"
    by simp
  have v: "calculate_basic (\<lambda>s. None) ''multiply'' [''a'' \<mapsto> JFloat 7, ''b'' \<mapsto> JInt 0]
             = Inr \<lparr>operation = ''multiply'', inputs = (7, 0), result = 0\<rparr>"
    by (simp add: calculate_basic_def dict_get_def f64_zero)
  from calculate_basic_missing_operand_is_zero
         [of "[''a'' \<mapsto> JFloat 7]" "\<lambda>s. None" "''multiply''"] m v
  show ?thesis
    by simp
qed

subsection \<open>Resources\<close>

text \<open>
  C4. \<open>handle_read_resource\<close> reads no resource at all. The URI of the request is an
  \<open>AnyUrl\<close>, on which \<open>uri.startswith\<close> raises \<open>AttributeError\<close>: for every registered URI,
  of scheme \<open>file\<close> or \<open>system\<close> alike, the call raises that error before the branch that
  opens the file, and for every other URI it raises \<open>Resource not found\<close>, never
  \<open>Unsupported resource type\<close>.
\<close>

theorem read_resource_never_reads:
  "handle_read_resource resources fs cls u =
     Inl (if resources u = None then ValueError (''Resource not found: '' @ str_url u)
          else AttributeError ([CHR 0x27] @ cls @ [CHR 0x27] @ '' object has no attribute ''
                               @ [CHR 0x27] @ ''startswith'' @ [CHR 0x27]))"
  by (simp add: handle_read_resource_def url_startswith_def)

text \<open>
  The registry that \<open>get_file_resources\<close> builds when \<open>data\<close> holds the one file
  \<open>sample.txt\<close>, for a validation that leaves these texts as they are.
\<close>

lemma registry_example:
  "get_file_resources (\<lambda>s. Inr (AnyUrl s)) [''data/sample.txt''] [] []
     = Inr [\<lparr>uri = AnyUrl ''file://data/sample.txt'', res_name = ''sample.txt'',
             res_description = ''Text file: sample.txt'', mimeType = ''text/plain''\<rparr>,
            \<lparr>uri = AnyUrl ''system://status'', res_name = ''System Status'',
             res_description = ''Current system status and information'',
             mimeType = ''application/json''\<rparr>,
            \<lparr>uri = AnyUrl ''system://logs'', res_name = ''System Logs'',
             res_description = ''Recent system logs'', mimeType = ''text/plain''\<rparr>]"
  by (simp add: get_file_resources_def Resource_def path_name_def)

text \<open>
  On that registry, with a file system that would return the text \<open>hello\<close>: reading the
  registered file and reading \<open>system://status\<close> both raise the \<open>AttributeError\<close>, and an
  unregistered URI of another scheme is not found.
\<close>

theorem read_resource_never_reads_witness:
  "handle_read_resource
     (register_resources
        [\<lparr>uri = AnyUrl ''file://data/sample.txt'', res_name = ''sample.txt'',
          res_description = ''Text file: sample.txt'', mimeType = ''text/plain''\<rparr>,
         \<lparr>uri = AnyUrl ''system://status'', res_name = ''System Status'',
          res_description = ''Current system status and information'',
          mimeType = ''application/json''\<rparr>,
         \<lparr>uri = AnyUrl ''system://logs'', res_name = ''System Logs'',
          res_description = ''Recent system logs'', mimeType = ''text/plain''\<rparr>])
     (\<lambda>p. Inr ''hello'') ''AnyUrl'' (AnyUrl ''file://data/sample.txt'')
   = Inl (AttributeError ([CHR 0x27] @ ''AnyUrl'' @ [CHR 0x27] @ '' object has no attribute ''
                           @ [CHR 0x27] @ ''startswith'' @ [CHR 0x27]))
   \<and> handle_read_resource
     (register_resources
        [\<lparr>uri = AnyUrl ''file://data/sample.txt'', res_name = ''sample.txt'',
          res_description = ''Text file: sample.txt'', mimeType = ''text/plain''\<rparr>,
         \<lparr>uri = AnyUrl ''system://status'', res_name = ''System Status'',
          res_description = ''Current system status and information'',
          mimeType = ''application/json''\<rparr>,
         \<lparr>uri = AnyUrl ''system://logs'', res_name = ''System Logs'',
          res_description = ''Recent system logs'', mimeType = ''text/plain''\<rparr>])
     (\<lambda>p. Inr ''hello'') ''AnyUrl'' (AnyUrl ''system://status'')
   = Inl (AttributeError ([CHR 0x27] @ ''AnyUrl'' @ [CHR 0x27] @ '' object has no attribute ''
                           @ [CHR 0x27] @ ''startswith'' @ [CHR 0x27]))
   \<and> handle_read_resource
     (register_resources
        [\<lparr>uri = AnyUrl ''file://data/sample.txt'', res_name = ''sample.txt'',
          res_description = ''Text file: sample.txt'', mimeType = ''text/plain''\<rparr>,
         \<lparr>uri = AnyUrl ''system://status'', res_name = ''System Status'',
          res_description = ''Current system status and information'',
          mimeType = ''application/json''\<rparr>,
         \<lparr>uri = AnyUrl ''system://logs'', res_name = ''System Logs'',
          res_description = ''Recent system logs'', mimeType = ''text/plain''\<rparr>])
     (\<lambda>p. Inr ''hello'') ''AnyUrl'' (AnyUrl ''http://example.com/'')
   = Inl (ValueError ''Resource not found: http://example.com/'')"
  using read_resource_never_reads
    [of "register_resources
        [\<lparr>uri = AnyUrl ''file://data/sample.txt'', res_name = ''sample.txt'',
          res_description = ''Text file: sample.txt'', mimeType = ''text/plain''\<rparr>,
         \<lparr>uri = AnyUrl ''system://status'', res_name = ''System Status'',
          res_description = ''Current system status and information'',
          mimeType = ''application/json''\<rparr>,
         \<lparr>uri = AnyUrl ''system://logs'', res_name = ''System Logs'',
          res_description = ''Recent system logs'', mimeType = ''text/plain''\<rparr>]"
        "\<lambda>p. Inr ''hello''" "''AnyUrl''" "AnyUrl ''file://data/sample.txt''"]
    read_resource_never_reads
    [of "register_resources
        [\<lparr>uri = AnyUrl ''file://data/sample.txt'', res_name = ''sample.txt'',
          res_description = ''Text file: sample.txt'', mimeType = ''text/plain''\<rparr>,
         \<lparr>uri = AnyUrl ''system://status'', res_name = ''System Status'',
          res_description = ''Current system status and information'',
          mimeType = ''application/json''\<rparr>,
         \<lparr>uri = AnyUrl ''system://logs'', res_name = ''System Logs'',
          res_description = ''Recent system logs'', mimeType = ''text/plain''\<rparr>]"
        "\<lambda>p. Inr ''hello''" "''AnyUrl''" "AnyUrl ''system://status''"]
    read_resource_never_reads
    [of "register_resources
        [\<lparr>uri = AnyUrl ''file://data/sample.txt'', res_name = ''sample.txt'',
          res_description = ''Text file: sample.txt'', mimeType = ''text/plain''\<rparr>,
         \<lparr>uri = AnyUrl ''system://status'', res_name = ''System Status'',
          res_description = ''Current system status and information'',
          mimeType = ''application/json''\<rparr>,
         \<lparr>uri = AnyUrl ''system://logs'', res_name = ''System Logs'',
          res_description = ''Recent system logs'', mimeType = ''text/plain''\<rparr>]"
        "\<lambda>p. Inr ''hello''" "''AnyUrl''" "AnyUrl ''http://example.com/''"]
  by (simp add: register_resources_def)

subsection \<open>JSON extraction\<close>

text \<open>
  What \<open>int\<close> takes for whitespace: the separator \<open>0x1C\<close> is not skipped, the no-break
  space is.
\<close>

lemma py_int_separator:
  "py_int [CHR 0x1C, CHR ''1'']
     = Inl (ValueError (''invalid literal for int() with base 10: '' @ [CHR 0x27] @ [CHR 0x5C]
                        @ ''x1c1'' @ [CHR 0x27]))"
  by (simp add: py_int_def int_space_def is_digit_def invalid_literal_def py_repr_def
      repr_char_def hex_digit_def Let_def)

lemma py_int_no_break_space: "py_int [CHR 0xA0, CHR ''1''] = Inr 1"
  by (simp add: py_int_def int_space_def is_digit_def)























subsection \<open>download\_file: the filename check\<close>

text \<open>\<open>_validate_url\<close> opens no connection and touches no file; it may print a warning.\<close>

lemma validate_url_effects:
  "connections (snd (validate_url env url w)) = connections w
   \<and> disk (snd (validate_url env url w)) = disk w"
  by (simp add: validate_url_def split: sum.splits)

lemma bad_filename_body:
  assumes "args ''filename'' = Some fn" and "sublist ''..'' fn \<or> CHR ''/'' \<in> set fn"
  shows "(\<exists>e. fst (download_body env args w) = Inl e)
         \<and> connections (snd (download_body env args w)) = connections w
         \<and> disk (snd (download_body env args w)) = disk w"
proof -
  have ne: "fn \<noteq> []"
    using assms(2) by auto
  obtain r w1 where v: "validate_url env (dict_get args ''url'' '''') w = (r, w1)"
    by (cases "validate_url env (dict_get args ''url'' '''') w")
  have eff: "connections w1 = connections w \<and> disk w1 = disk w"
    using validate_url_effects [of env "dict_get args ''url'' ''''" w] v by simp
  show ?thesis
    using assms ne v eff
    by (cases r) (simp_all add: download_body_def dict_get_def Let_def)
qed

lemma bad_filename_body_exact:
  assumes "args ''filename'' = Some fn" and "sublist ''..'' fn \<or> CHR ''/'' \<in> set fn"
  shows "fst (download_body env args w) =
           Inl (ValueError
                 (if dict_get args ''url'' '''' = [] then ''url is required''
                  else (case urlparse env (dict_get args ''url'' '''') of
                          Inl e \<Rightarrow> ''Invalid URL: '' @ str_exn e
                        | Inr parsed \<Rightarrow>
                            if url_scheme parsed \<notin> set [''http'', ''https'']
                            then ''Invalid URL: Only HTTP and HTTPS URLs are allowed''
                            else ''Invalid filename'')))"
proof -
  have ne: "fn \<noteq> []"
    using assms(2) by auto
  have fnm: "dict_get args ''filename'' '''' = fn"
    using assms(1) by (simp add: dict_get_def)
  show ?thesis
  proof (cases "dict_get args ''url'' '''' = []")
    case True
    then show ?thesis
      by (simp add: download_body_def Let_def)
  next
    case False
    show ?thesis
    proof (cases "urlparse env (dict_get args ''url'' '''')")
      case (Inl e)
      then show ?thesis
        using False by (simp add: download_body_def validate_url_def Let_def)
    next
      case (Inr parsed)
      show ?thesis
      proof (cases "url_scheme parsed \<notin> set [''http'', ''https'']")
        case True
        then show ?thesis
          using False Inr by (simp add: download_body_def validate_url_def Let_def)
      next
        case s: False
        show ?thesis
        proof (cases "list_ex (\<lambda>domain. suffix domain (url_netloc parsed)) ALLOWED_DOMAINS")
          case True
          then show ?thesis
            using False Inr s ne fnm assms(2)
            by (simp add: download_body_def validate_url_def Let_def)
        next
          case d: False
          then show ?thesis
            using False Inr s ne fnm assms(2)
            by (simp add: download_body_def validate_url_def Let_def)
        qed
      qed
    qed
  qed
qed

text \<open>
  C10 (as stated, refuted). The claim reads: every call to \<open>download_file\<close> whose explicit
  filename contains \<open>..\<close> or \<open>/\<close> fails with an invalid-filename error. The checks on the
  url come first in the source, so a call with the filename \<open>../x\<close> and no url fails with
  \<open>Download failed: url is required\<close>, which is not the invalid-filename error. (The world
  is left as it was.)
\<close>

theorem download_missing_url_bad_filename:
  "download_file \<lparr>urlparse = (\<lambda>u. Inr \<lparr>url_scheme = ''http'', url_netloc = ''example.com'', url_path = ''/f''\<rparr>),
      http_get = (\<lambda>u. Inl (OSError ''unreachable''))\<rparr>
     [''filename'' \<mapsto> ''../x''] \<lparr>connections = [], disk = Map.empty, stdout = []\<rparr>
   = (Inl (Exception ''Download failed: url is required''), \<lparr>connections = [], disk = Map.empty, stdout = []\<rparr>)"
  by (simp add: download_file_def download_body_def dict_get_def)

text \<open>
  C10 (amended). For every call to \<open>download_file\<close> whose explicit filename contains \<open>..\<close>
  or \<open>/\<close>: the call fails, and the list of connections opened and the files on disk are
  what they were before the call. The failure is the first one that the source reaches:
  \<open>url is required\<close> when the url is absent or empty, \<open>Invalid URL: ...\<close> when \<open>urlparse\<close>
  raises or the scheme is neither http nor https, and \<open>Invalid filename\<close> otherwise; each
  is raised again with the prefix \<open>Download failed: \<close>.
\<close>

theorem download_rejects_bad_filename:
  assumes "args ''filename'' = Some fn" and "sublist ''..'' fn \<or> CHR ''/'' \<in> set fn"
  shows "fst (download_file env args w) =
           Inl (Exception
                 (''Download failed: '' @
                  (if dict_get args ''url'' '''' = [] then ''url is required''
                   else (case urlparse env (dict_get args ''url'' '''') of
                           Inl e \<Rightarrow> ''Invalid URL: '' @ str_exn e
                         | Inr parsed \<Rightarrow>
                             if url_scheme parsed \<notin> set [''http'', ''https'']
                             then ''Invalid URL: Only HTTP and HTTPS URLs are allowed''
                             else ''Invalid filename''))))
         \<and> connections (snd (download_file env args w)) = connections w
         \<and> disk (snd (download_file env args w)) = disk w"
proof -
  obtain r w1 where b: "download_body env args w = (r, w1)"
    by (cases "download_body env args w")
  have f: "download_file env args w = (reraise_all ''Download failed: '' r, w1)"
    by (simp add: download_file_def b)
  from bad_filename_body [where args = args and fn = fn and env = env and w = w, OF assms] b
  have c: "connections w1 = connections w" and d: "disk w1 = disk w"
    by auto
  from bad_filename_body_exact [where args = args and fn = fn and env = env and w = w, OF assms] b
  have r: "r = Inl (ValueError
                 (if dict_get args ''url'' '''' = [] then ''url is required''
                  else (case urlparse env (dict_get args ''url'' '''') of
                          Inl e \<Rightarrow> ''Invalid URL: '' @ str_exn e
                        | Inr parsed \<Rightarrow>
                            if url_scheme parsed \<notin> set [''http'', ''https'']
                            then ''Invalid URL: Only HTTP and HTTPS URLs are allowed''
                            else ''Invalid filename'')))"
    by simp
  have 1: "fst (download_file env args w) = reraise_all ''Download failed: '' r"
    by (simp add: f)
  show ?thesis
    unfolding 1 r using c d by (simp add: f)
qed

text \<open>
  The amended property at the call \<open>{"url": "https://example.com/f", "filename": "../x"}\<close>
  in a world with no connection and no file.
\<close>

theorem download_rejects_bad_filename_witness:
  "fst (download_file
         \<lparr>urlparse = (\<lambda>u. Inr \<lparr>url_scheme = ''https'', url_netloc = ''example.com'',
                                url_path = ''/f''\<rparr>),
          http_get = (\<lambda>u. Inl (OSError ''unreachable''))\<rparr>
         [''url'' \<mapsto> ''https://example.com/f'', ''filename'' \<mapsto> ''../x'']
         \<lparr>connections = [], disk = Map.empty, stdout = []\<rparr>)
     = Inl (Exception ''Download failed: Invalid filename'')
   \<and> connections (snd (download_file
         \<lparr>urlparse = (\<lambda>u. Inr \<lparr>url_scheme = ''https'', url_netloc = ''example.com'',
                                url_path = ''/f''\<rparr>),
          http_get = (\<lambda>u. Inl (OSError ''unreachable''))\<rparr>
         [''url'' \<mapsto> ''https://example.com/f'', ''filename'' \<mapsto> ''../x'']
         \<lparr>connections = [], disk = Map.empty, stdout = []\<rparr>)) = []
   \<and> disk (snd (download_file
         \<lparr>urlparse = (\<lambda>u. Inr \<lparr>url_scheme = ''https'', url_netloc = ''example.com'',
                                url_path = ''/f''\<rparr>),
          http_get = (\<lambda>u. Inl (OSError ''unreachable''))\<rparr>
         [''url'' \<mapsto> ''https://example.com/f'', ''filename'' \<mapsto> ''../x'']
         \<lparr>connections = [], disk = Map.empty, stdout = []\<rparr>)) = Map.empty"
proof -
  let ?env = "\<lparr>urlparse = (\<lambda>u. Inr \<lparr>url_scheme = ''https'', url_netloc = ''example.com'',
                                url_path = ''/f''\<rparr>),
          http_get = (\<lambda>u. Inl (OSError ''unreachable''))\<rparr>"
  let ?args = "[''url'' \<mapsto> ''https://example.com/f'', ''filename'' \<mapsto> ''../x'']"
  let ?w = "\<lparr>connections = [], disk = Map.empty, stdout = []\<rparr>"
  have a: "?args ''filename'' = Some ''../x''"
    by simp
  have b: "sublist ''..'' ''../x'' \<or> CHR ''/'' \<in> set ''../x''"
    by simp
  note t = download_rejects_bad_filename [where args = ?args and fn = "''../x''" and env = ?env and w = ?w, OF a b]
  show ?thesis
    using t by (simp add: dict_get_def)
qed

subsection \<open>Prompts\<close>

text \<open>
  One \<open>replace\<close> on a template: text without an opening brace is passed over, the
  placeholder of the key is replaced, and the placeholder of another key is left.
\<close>

lemma replace_empty: "old \<noteq> [] \<Longrightarrow> py_replace old new [] = []"
  by (subst py_replace.simps) simp

lemma replace_skip:
  "CHR ''{'' \<notin> set u \<Longrightarrow>
   py_replace (CHR ''{'' # k) v (u @ t) = u @ py_replace (CHR ''{'' # k) v t"
proof (induction u)
  case Nil
  then show ?case by simp
next
  case (Cons c u)
  then have c: "c \<noteq> CHR ''{''" and u: "CHR ''{'' \<notin> set u"
    by auto
  have "py_replace (CHR ''{'' # k) v ((c # u) @ t) = c # py_replace (CHR ''{'' # k) v (u @ t)"
    using c by (subst py_replace.simps) auto
  then show ?case
    using Cons.IH [OF u] by simp
qed

lemma replace_at_token:
  "py_replace (CHR ''{'' # k) v ((CHR ''{'' # k) @ t) = v @ py_replace (CHR ''{'' # k) v t"
  by (subst py_replace.simps) simp

lemma first_occurrence:
  "c \<notin> set a \<Longrightarrow> c \<notin> set b \<Longrightarrow> a @ c # x = b @ c # y \<Longrightarrow> a = b"
proof (induction a arbitrary: b)
  case Nil
  then show ?case by (cases b) auto
next
  case (Cons h a)
  then show ?case by (cases b) auto
qed

lemma replace_other_token:
  assumes k: "CHR ''}'' \<notin> set k" and k': "CHR ''{'' \<notin> set k'" "CHR ''}'' \<notin> set k'"
    and ne: "k' \<noteq> k"
  shows "py_replace (CHR ''{'' # k @ ''}'') v ((CHR ''{'' # k' @ ''}'') @ t)
           = (CHR ''{'' # k' @ ''}'') @ py_replace (CHR ''{'' # k @ ''}'') v t"
proof -
  have np: "\<not> prefix (CHR ''{'' # k @ ''}'') ((CHR ''{'' # k' @ ''}'') @ t)"
  proof
    assume "prefix (CHR ''{'' # k @ ''}'') ((CHR ''{'' # k' @ ''}'') @ t)"
    then obtain r where "(CHR ''{'' # k' @ ''}'') @ t = (CHR ''{'' # k @ ''}'') @ r"
      by (auto simp: prefix_def)
    then have "k' @ CHR ''}'' # t = k @ CHR ''}'' # r"
      by simp
    then have "k' = k"
      by (rule first_occurrence [OF k'(2) k])
    with ne show False
      by simp
  qed
  have "py_replace (CHR ''{'' # k @ ''}'') v ((CHR ''{'' # k' @ ''}'') @ t)
          = CHR ''{'' # py_replace (CHR ''{'' # k @ ''}'') v ((k' @ ''}'') @ t)"
    using np by (subst py_replace.simps) auto
  also have "py_replace (CHR ''{'' # k @ ''}'') v ((k' @ ''}'') @ t)
          = (k' @ ''}'') @ py_replace (CHR ''{'' # k @ ''}'') v t"
    using k'(1) by (intro replace_skip) simp
  finally show ?thesis
    by simp
qed

lemma replace_render:
  assumes k: "CHR ''}'' \<notin> set k"
  shows "well_formed t \<Longrightarrow>
         py_replace (CHR ''{'' # k @ ''}'') v (spec_render Map.empty t)
           = spec_render Map.empty (fill k v t)"
proof (induction t rule: well_formed.induct)
  case 1
  then show ?case by (simp add: replace_empty)
next
  case (2 a t)
  then show ?case
    using replace_skip [of a "k @ ''}''" v "spec_render Map.empty t"] by simp
next
  case (3 k' t)
  show ?case
  proof (cases "k' = k")
    case True
    then show ?thesis
      using 3 replace_at_token [of "k @ ''}''" v "spec_render Map.empty t"] by simp
  next
    case False
    then show ?thesis
      using 3 replace_other_token [OF k, of k' v "spec_render Map.empty t"] by simp
  qed
qed

lemma well_formed_fill: "well_formed t \<Longrightarrow> CHR ''{'' \<notin> set v \<Longrightarrow> well_formed (fill k v t)"
  by (induction t rule: well_formed.induct) simp_all

lemma render_fill: "spec_render m (fill k v t) = spec_render (m(k \<mapsto> v)) t"
  by (induction t rule: well_formed.induct) simp_all

lemma fold_render:
  "well_formed t \<Longrightarrow>
   \<forall>(k, v)\<in>set args. CHR ''}'' \<notin> set k \<and> CHR ''{'' \<notin> set v \<Longrightarrow>
   foldl (\<lambda>description (key, value). py_replace (''{'' @ key @ ''}'') value description)
         (spec_render Map.empty t) args
     = spec_render (map_of args) t"
proof (induction args arbitrary: t)
  case Nil
  then show ?case by simp
next
  case (Cons kv args)
  obtain k v where kv: "kv = (k, v)"
    by (cases kv)
  from Cons.prems kv have k: "CHR ''}'' \<notin> set k" and v: "CHR ''{'' \<notin> set v"
    and rest: "\<forall>(k, v)\<in>set args. CHR ''}'' \<notin> set k \<and> CHR ''{'' \<notin> set v"
    by auto
  have wf: "well_formed (fill k v t)"
    using Cons.prems(1) v by (rule well_formed_fill)
  have "foldl (\<lambda>description (key, value). py_replace (''{'' @ key @ ''}'') value description)
         (spec_render Map.empty t) (kv # args)
        = foldl (\<lambda>description (key, value). py_replace (''{'' @ key @ ''}'') value description)
         (spec_render Map.empty (fill k v t)) args"
    using replace_render [OF k Cons.prems(1), of v] by (simp add: kv)
  also have "\<dots> = spec_render (map_of args) (fill k v t)"
    by (rule Cons.IH [OF wf rest])
  also have "\<dots> = spec_render ((map_of args)(k \<mapsto> v)) t"
    by (rule render_fill)
  also have "(map_of args)(k \<mapsto> v) = map_of (kv # args)"
    by (simp add: kv)
  finally show ?case .
qed


lemma foldl_replace_empty:
  "foldl (\<lambda>description (key, value). py_replace (''{'' @ key @ ''}'') value description) [] args
     = []"
  by (induction args) (auto simp: replace_empty)

lemma registered_code_review:
  "register_prompts get_analysis_prompts ''code_review''
     = Some \<lparr>p_name = ''code_review'',
            p_description = Some ''Review {language} code for {review_type} and provide suggestions'',
            p_arguments =
              [\<lparr>pa_name = ''language'',
                pa_description = ''Programming language (e.g., Python, JavaScript, Java)'',
                pa_required = True\<rparr>,
               \<lparr>pa_name = ''review_type'',
                pa_description = ''Type of review (e.g., security, performance, style)'',
                pa_required = True\<rparr>,
               \<lparr>pa_name = ''complexity_level'',
                pa_description = ''Code complexity level (beginner, intermediate, advanced)'',
                pa_required = False\<rparr>]\<rparr>"
  by (simp add: register_prompts_def get_analysis_prompts_def)

text \<open>
  C7 (as stated, fails). A placeholder whose key is not supplied is not always left as it is
  written: a supplied key that itself holds braces can span it. For the prompt
  \<open>code_review\<close> and the one argument with key \<open>language} code for {review_type\<close> and value
  \<open>X\<close>, the key \<open>review_type\<close> is not supplied, and the description returned is
  \<open>Review X and provide suggestions\<close>, without the placeholder \<open>{review_type}\<close>.
\<close>

theorem get_prompt_brace_key:
  "handle_get_prompt (register_prompts get_analysis_prompts) ''code_review''
     (Some [(''language} code for {review_type'', ''X'')])
   = Inr \<lparr>gp_description = Some ''Review X and provide suggestions'',
            messages = [\<lparr>role = ''user'',
                         pm_content = \<lparr>tc_type = ''text'', tc_text = ''Review X and provide suggestions''\<rparr>\<rparr>]\<rparr>"
proof -
  let ?old = "CHR ''{'' # ''language} code for {review_type}''"
  have 1: "py_replace ?old ''X'' (''Review '' @ (?old @ ('' and provide suggestions'' @ [])))
           = ''Review '' @ py_replace ?old ''X'' (?old @ ('' and provide suggestions'' @ []))"
    by (rule replace_skip) simp
  have 2: "py_replace ?old ''X'' (?old @ ('' and provide suggestions'' @ []))
           = ''X'' @ py_replace ?old ''X'' ('' and provide suggestions'' @ [])"
    by (rule replace_at_token)
  have 3: "py_replace ?old ''X'' ('' and provide suggestions'' @ [])
           = '' and provide suggestions'' @ py_replace ?old ''X'' []"
    by (rule replace_skip) simp
  have 4: "py_replace ?old ''X'' [] = []"
    by (rule replace_empty) simp
  have "py_replace ?old ''X'' (''Review '' @ (?old @ ('' and provide suggestions'' @ [])))
        = ''Review '' @ (''X'' @ ('' and provide suggestions'' @ []))"
    by (simp only: 1 2 3 4)
  then have r: "py_replace ''{language} code for {review_type}'' ''X''
                  ''Review {language} code for {review_type} and provide suggestions''
                = ''Review X and provide suggestions''"
    by simp
  show ?thesis
    by (simp add: handle_get_prompt_def registered_code_review r)
qed

text \<open>
  C7 (amended). Let the description of a registered prompt be a template: literal text
  without opening brace, and placeholders \<open>{key}\<close> whose keys hold no brace. For supplied
  arguments whose keys hold no closing brace and whose values hold no opening brace (or for
  no arguments), \<open>handle_get_prompt\<close> raises no error and returns the template resolved
  against the arguments: each placeholder of a supplied key replaced by its value, every
  other placeholder left as it is written. The result has this text as its description and
  as the text of its single message, of role \<open>user\<close>.
\<close>

theorem get_prompt_substitutes:
  assumes "prompts prompt_name = Some prompt"
    and "p_description prompt = Some (spec_render Map.empty t)"
    and "well_formed t"
    and "arguments = (case request_arguments of None \<Rightarrow> [] | Some a \<Rightarrow> a)"
    and "\<forall>(k, v)\<in>set arguments. CHR ''}'' \<notin> set k \<and> CHR ''{'' \<notin> set v"
  shows "handle_get_prompt prompts prompt_name request_arguments =
           Inr \<lparr>gp_description = Some (spec_render (map_of arguments) t),
                messages =
                  [\<lparr>role = ''user'',
                    pm_content = \<lparr>tc_type = ''text'',
                                  tc_text = spec_render (map_of arguments) t\<rparr>\<rparr>]\<rparr>"
proof -
  have f: "foldl (\<lambda>description (key, value). py_replace (''{'' @ key @ ''}'') value description)
             (spec_render Map.empty t) arguments
           = spec_render (map_of arguments) t"
    using assms(3) assms(5) by (rule fold_render)
  have e: "spec_render Map.empty t = [] \<Longrightarrow> spec_render (map_of arguments) t = []"
    using f foldl_replace_empty [of arguments] by simp
  show ?thesis
    using assms(1,2) f e
    by (simp add: handle_get_prompt_def Let_def assms(4) [symmetric])
qed

text \<open>
  The amended property for the prompt \<open>code_review\<close> with the one argument
  \<open>language = Python\<close>: the placeholder \<open>{review_type}\<close> stays.
\<close>

theorem get_prompt_substitutes_witness:
  "handle_get_prompt (register_prompts get_analysis_prompts) ''code_review''
     (Some [(''language'', ''Python'')])
   = Inr \<lparr>gp_description = Some ''Review Python code for {review_type} and provide suggestions'',
            messages = [\<lparr>role = ''user'',
                         pm_content = \<lparr>tc_type = ''text'', tc_text = ''Review Python code for {review_type} and provide suggestions''\<rparr>\<rparr>]\<rparr>"
  using get_prompt_substitutes
    [where prompts = "register_prompts get_analysis_prompts" and prompt_name = "''code_review''"
       and prompt = "\<lparr>p_name = ''code_review'',
            p_description = Some ''Review {language} code for {review_type} and provide suggestions'',
            p_arguments =
              [\<lparr>pa_name = ''language'',
                pa_description = ''Programming language (e.g., Python, JavaScript, Java)'',
                pa_required = True\<rparr>,
               \<lparr>pa_name = ''review_type'',
                pa_description = ''Type of review (e.g., security, performance, style)'',
                pa_required = True\<rparr>,
               \<lparr>pa_name = ''complexity_level'',
                pa_description = ''Code complexity level (beginner, intermediate, advanced)'',
                pa_required = False\<rparr>]\<rparr>"
       and t = "[Lit ''Review '', Hole ''language'', Lit '' code for '', Hole ''review_type'',
           Lit '' and provide suggestions'']"
       and request_arguments = "Some [(''language'', ''Python'')]"
       and arguments = "[(''language'', ''Python'')]"]
  by (simp add: registered_code_review)

end
